theory Spec2Isabelle
  imports Complex_Main "HOL-Library.Word"
begin

section \<open>Data model of \<^verbatim>\<open>generative_animator.py\<close>\<close>

text \<open>
  Python's \<^verbatim>\<open>float\<close> fields are modelled as exact real numbers and \<^verbatim>\<open>int\<close> as
  unbounded integers. Rounding of IEEE doubles, infinities and NaN are outside this model;
  every statement below about a float is a statement about the real number it denotes.
\<close>

text \<open>
  The three ways the schedule parser raises \<^verbatim>\<open>ValueError\<close>: \<^verbatim>\<open>int()\<close> and \<^verbatim>\<open>float()\<close>
  on a string that is no literal (the message quotes the string), and unpacking a split
  that has more than two fields (the message quotes nothing).
\<close>

datatype value_error = InvalidInt string | InvalidFloat string | TooManyValues

datatype error =
    ValueError value_error
  | IndexError
  | ZeroDivisionError
  | NonFinite string
  | External string

text \<open>
  \<open>NonFinite tok\<close>: a computation reached the literal \<open>tok\<close>, which Python's \<^verbatim>\<open>float()\<close>
  reads as an infinity or a NaN and which has no real value: the model stops there, the
  program would go on with that float.
  \<open>External msg\<close>: an exception raised by a collaborator (the diffusion pipeline, the progress
  callback, the model loader, NumPy on arrays of different shapes).
\<close>

record AnimationKeyframe =
  frame :: int
  prompt :: string
  negative_prompt :: string
  strength :: real
  seed :: int
  zoom :: real
  angle :: real
  translation_x :: real
  translation_y :: real
  translation_z :: real
  rotation_3d_x :: real
  rotation_3d_y :: real
  rotation_3d_z :: real
  perspective_flip_theta :: real
  perspective_flip_phi :: real
  perspective_flip_gamma :: real
  noise_schedule :: string
  color_coherence :: string
  diffusion_cadence :: int
  optical_flow_cadence :: string

text \<open>\<^verbatim>\<open>AnimationKeyframe(frame=f, prompt=p)\<close>: every other field at its dataclass default.\<close>

definition new_keyframe :: "int \<Rightarrow> string \<Rightarrow> AnimationKeyframe" where
  "new_keyframe f p =
     \<lparr> frame = f, prompt = p, negative_prompt = [], strength = 3 / 4, seed = - 1,
       zoom = 1, angle = 0,
       translation_x = 0, translation_y = 0, translation_z = 0,
       rotation_3d_x = 0, rotation_3d_y = 0, rotation_3d_z = 0,
       perspective_flip_theta = 0, perspective_flip_phi = 0, perspective_flip_gamma = 0,
       noise_schedule = ''0:(0.02)'', color_coherence = ''Match Frame 0 LAB'',
       diffusion_cadence = 1, optical_flow_cadence = ''None'' \<rparr>"

section \<open>Keyframe interpolation: \<^verbatim>\<open>_get_keyframe_at_frame\<close>\<close>

definition lerp :: "real \<Rightarrow> real \<Rightarrow> real \<Rightarrow> real" where
  "lerp a b t = a + (b - a) * t"

text \<open>
  The keyframes of a configuration are objects: the list \<^verbatim>\<open>config.keyframes\<close> holds
  references, \<^verbatim>\<open>sorted\<close> builds a new list of the same references, and the function
  returns either one of these objects or a freshly constructed one. An object of the
  configuration is named by its position in \<^verbatim>\<open>config.keyframes\<close>.
\<close>

datatype kref = Config nat | Fresh AnimationKeyframe

text \<open>\<^verbatim>\<open>sorted(keyframes, key=lambda x: x.frame)\<close>, as positions; Python's sort is stable.\<close>

definition sorted_keyframes :: "AnimationKeyframe list \<Rightarrow> nat list" where
  "sorted_keyframes kfs = sort_key (\<lambda>i. frame (kfs ! i)) [0..<length kfs]"

text \<open>The loop over the sorted keyframes that sets \<^verbatim>\<open>before\<close> and \<^verbatim>\<open>after\<close>.\<close>

fun surrounding ::
  "int \<Rightarrow> AnimationKeyframe list \<Rightarrow> nat list \<Rightarrow> nat option \<times> nat option
     \<Rightarrow> nat option \<times> nat option" where
  "surrounding idx kfs [] (bef, aft) = (bef, aft)"
| "surrounding idx kfs (i # rest) (bef, aft) =
     surrounding idx kfs rest
       (if frame (kfs ! i) \<le> idx then Some i else bef,
        if frame (kfs ! i) > idx \<and> aft = None then Some i else aft)"

text \<open>
  The keyframe constructed in the interpolating branch. The constructor call names the
  fields below; the three perspective-flip angles, \<^verbatim>\<open>noise_schedule\<close>,
  \<^verbatim>\<open>color_coherence\<close>, \<^verbatim>\<open>diffusion_cadence\<close> and \<^verbatim>\<open>optical_flow_cadence\<close> are not
  passed and take their defaults. The division is Python's true division; its divisor is
  positive whenever this branch is reached (lemma \<open>surrounding_frames\<close>).
\<close>

definition interpolate_keyframe ::
  "int \<Rightarrow> AnimationKeyframe \<Rightarrow> AnimationKeyframe \<Rightarrow> AnimationKeyframe" where
  "interpolate_keyframe idx bef aft =
     (let t = real_of_int (idx - frame bef) / real_of_int (frame aft - frame bef)
      in (new_keyframe idx (if t < 1 / 2 then prompt bef else prompt aft))
           \<lparr> negative_prompt := negative_prompt bef,
             strength := lerp (strength bef) (strength aft) t,
             seed := seed bef,
             zoom := lerp (zoom bef) (zoom aft) t,
             angle := lerp (angle bef) (angle aft) t,
             translation_x := lerp (translation_x bef) (translation_x aft) t,
             translation_y := lerp (translation_y bef) (translation_y aft) t,
             translation_z := lerp (translation_z bef) (translation_z aft) t,
             rotation_3d_x := lerp (rotation_3d_x bef) (rotation_3d_x aft) t,
             rotation_3d_y := lerp (rotation_3d_y bef) (rotation_3d_y aft) t,
             rotation_3d_z := lerp (rotation_3d_z bef) (rotation_3d_z aft) t \<rparr>)"

definition get_keyframe_ref :: "int \<Rightarrow> AnimationKeyframe list \<Rightarrow> kref" where
  "get_keyframe_ref idx kfs =
     (if kfs = [] then Fresh (new_keyframe idx [])
      else case surrounding idx kfs (sorted_keyframes kfs) (None, None) of
             (None, _) \<Rightarrow> Config 0
           | (Some b, None) \<Rightarrow> Config b
           | (Some b, Some a) \<Rightarrow> Fresh (interpolate_keyframe idx (kfs ! b) (kfs ! a)))"

text \<open>The object a reference denotes, given the current fields of the configuration's keyframes.\<close>

fun deref :: "AnimationKeyframe list \<Rightarrow> kref \<Rightarrow> AnimationKeyframe" where
  "deref kfs (Config i) = kfs ! i"
| "deref kfs (Fresh k) = k"

definition get_keyframe_at_frame :: "int \<Rightarrow> AnimationKeyframe list \<Rightarrow> AnimationKeyframe" where
  "get_keyframe_at_frame idx kfs = deref kfs (get_keyframe_ref idx kfs)"

section \<open>Audio reactivity: \<^verbatim>\<open>_apply_audio_reactivity\<close>\<close>

text \<open>
  \<^verbatim>\<open>audio_params\<close> is a dict from feature names to arrays, kept in insertion order.
  Reading an array beyond its end raises \<^verbatim>\<open>IndexError\<close>.
\<close>

type_synonym audio_params = "(string \<times> real list) list"

definition feature :: "audio_params \<Rightarrow> string \<Rightarrow> nat \<Rightarrow> error + real option" where
  "feature ap name i =
     (case map_of ap name of
        None \<Rightarrow> Inr None
      | Some vs \<Rightarrow> if i < length vs then Inr (Some (vs ! i)) else Inl IndexError)"

definition modulate_zoom :: "real option \<Rightarrow> AnimationKeyframe \<Rightarrow> AnimationKeyframe" where
  "modulate_zoom bass_value kf =
     (case bass_value of None \<Rightarrow> kf | Some v \<Rightarrow> kf\<lparr>zoom := zoom kf * (1 + v * (2 / 10))\<rparr>)"

definition modulate_angle :: "real option \<Rightarrow> AnimationKeyframe \<Rightarrow> AnimationKeyframe" where
  "modulate_angle treble_value kf =
     (case treble_value of None \<Rightarrow> kf | Some v \<Rightarrow> kf\<lparr>angle := angle kf + v * 45\<rparr>)"

definition modulate_strength :: "real option \<Rightarrow> AnimationKeyframe \<Rightarrow> AnimationKeyframe" where
  "modulate_strength energy_value kf =
     (case energy_value of None \<Rightarrow> kf | Some v \<Rightarrow> kf\<lparr>strength := 1 / 2 + v * (1 / 2)\<rparr>)"

text \<open>
  The function updates the fields of the object it is given, one feature after the other,
  and returns that object. The model returns the fields the object holds when the function
  leaves, and the exception if it leaves by one.
\<close>

definition apply_audio_reactivity ::
  "AnimationKeyframe \<Rightarrow> audio_params \<Rightarrow> nat \<Rightarrow> AnimationKeyframe \<times> error option" where
  "apply_audio_reactivity kf ap i =
     (case feature ap ''bass'' i of
        Inl e \<Rightarrow> (kf, Some e)
      | Inr bass_value \<Rightarrow>
          (case feature ap ''treble'' i of
             Inl e \<Rightarrow> (modulate_zoom bass_value kf, Some e)
           | Inr treble_value \<Rightarrow>
               (case feature ap ''energy'' i of
                  Inl e \<Rightarrow> (modulate_angle treble_value (modulate_zoom bass_value kf), Some e)
                | Inr energy_value \<Rightarrow>
                    (modulate_strength energy_value
                       (modulate_angle treble_value (modulate_zoom bass_value kf)), None))))"

text \<open>The same call on a reference: an object of the configuration is updated in place.\<close>

fun apply_audio_reactivity_ref ::
  "AnimationKeyframe list \<Rightarrow> kref \<Rightarrow> audio_params \<Rightarrow> nat
     \<Rightarrow> AnimationKeyframe list \<times> kref \<times> error option" where
  "apply_audio_reactivity_ref kfs (Config j) ap i =
     (case apply_audio_reactivity (kfs ! j) ap i of (k, e) \<Rightarrow> (kfs[j := k], Config j, e))"
| "apply_audio_reactivity_ref kfs (Fresh kf) ap i =
     (case apply_audio_reactivity kf ap i of (k, e) \<Rightarrow> (kfs, Fresh k, e))"

text \<open>Every array the three rules read is long enough for frame \<open>i\<close>.\<close>

definition features_cover :: "audio_params \<Rightarrow> nat \<Rightarrow> bool" where
  "features_cover ap i =
     list_all (\<lambda>name. case map_of ap name of None \<Rightarrow> True | Some vs \<Rightarrow> i < length vs)
       [''bass'', ''treble'', ''energy'']"

section \<open>Schedule strings: \<^verbatim>\<open>parse_schedule_string\<close>\<close>

subsection \<open>The string operations of Python the parser uses\<close>

text \<open>
  A character is a code point below 256. \<^verbatim>\<open>str.strip()\<close> removes the characters Python
  counts as whitespace: tab to carriage return, the four separators 28 to 31, the space,
  and in this range also 133 and 160.
\<close>

definition is_space :: "char \<Rightarrow> bool" where
  "is_space c = ((of_char c :: nat) \<in> {9, 10, 11, 12, 13, 28, 29, 30, 31, 32, 133, 160})"

definition strip_where :: "(char \<Rightarrow> bool) \<Rightarrow> string \<Rightarrow> string" where
  "strip_where P s = rev (dropWhile P (rev (dropWhile P s)))"

definition strip :: "string \<Rightarrow> string" where
  "strip s = strip_where is_space s"

definition strip_chars :: "string \<Rightarrow> string \<Rightarrow> string" where
  "strip_chars cs s = strip_where (\<lambda>c. c \<in> set cs) s"

text \<open>\<^verbatim>\<open>s.split(d)\<close> for a one-character separator: never empty, one more field than separators.\<close>

fun split_from :: "char \<Rightarrow> string \<Rightarrow> string \<Rightarrow> string list" where
  "split_from d field [] = [field]"
| "split_from d field (c # cs) =
     (if c = d then field # split_from d [] cs else split_from d (field @ [c]) cs)"

definition split_on :: "char \<Rightarrow> string \<Rightarrow> string list" where
  "split_on d s = split_from d [] s"

definition is_digit :: "char \<Rightarrow> bool" where
  "is_digit c = (48 \<le> (of_char c :: nat) \<and> (of_char c :: nat) \<le> 57)"

definition digit_val :: "char \<Rightarrow> nat" where
  "digit_val c = of_char c - 48"

text \<open>
  A digit part of a numeric literal: digits, with single underscores allowed between two
  digits. The result is the digits without the underscores.
\<close>

fun digitpart :: "string \<Rightarrow> string option" where
  "digitpart [] = None"
| "digitpart [c] = (if is_digit c then Some [c] else None)"
| "digitpart (c # d # cs) =
     (if \<not> is_digit c then None
      else if d = CHR ''_'' then map_option (Cons c) (digitpart cs)
      else map_option (Cons c) (digitpart (d # cs)))"

definition dec_value :: "string \<Rightarrow> nat" where
  "dec_value ds = foldl (\<lambda>a c. 10 * a + digit_val c) 0 ds"

definition split_sign :: "string \<Rightarrow> int \<times> string" where
  "split_sign s =
     (case s of
        [] \<Rightarrow> (1, [])
      | c # cs \<Rightarrow> if c = CHR ''-'' then (- 1, cs) else if c = CHR ''+'' then (1, cs) else (1, s))"

text \<open>\<^verbatim>\<open>int(s)\<close> in base 10: surrounding whitespace, an optional sign, a digit part.\<close>

definition py_int :: "string \<Rightarrow> int option" where
  "py_int s =
     (case split_sign (strip s) of
        (sg, body) \<Rightarrow> map_option (\<lambda>ds. sg * int (dec_value ds)) (digitpart body))"

text \<open>
  \<^verbatim>\<open>float(s)\<close>: surrounding whitespace, an optional sign, then either one of the words
  \<^verbatim>\<open>inf\<close>, \<^verbatim>\<open>infinity\<close>, \<^verbatim>\<open>nan\<close> in any case, or a decimal literal: a digit part, or
  digit parts around a point of which one may be missing, and an optional exponent
  \<^verbatim>\<open>e\<close> or \<^verbatim>\<open>E\<close> with an optional sign and a digit part. The value of a decimal literal is
  the real number it denotes; one of the three words denotes no real number and is kept
  as it is. \<open>None\<close> is \<^verbatim>\<open>ValueError\<close>.
\<close>

datatype pyfloat = Number real | Special string

definition lower :: "char \<Rightarrow> char" where
  "lower c = (if 65 \<le> (of_char c :: nat) \<and> (of_char c :: nat) \<le> 90
              then char_of ((of_char c :: nat) + 32) else c)"

definition is_exp_mark :: "char \<Rightarrow> bool" where
  "is_exp_mark c = (c = CHR ''e'' \<or> c = CHR ''E'')"

definition mantissa :: "string \<Rightarrow> real option" where
  "mantissa m =
     (case split_on CHR ''.'' m of
        [ip] \<Rightarrow> map_option (\<lambda>ds. real (dec_value ds)) (digitpart ip)
      | [ip, fp] \<Rightarrow>
          (if ip = [] then
             map_option (\<lambda>fs. real (dec_value fs) / 10 ^ length fs) (digitpart fp)
           else if fp = [] then
             map_option (\<lambda>ds. real (dec_value ds)) (digitpart ip)
           else
             (case (digitpart ip, digitpart fp) of
                (Some ds, Some fs) \<Rightarrow> Some (real (dec_value (ds @ fs)) / 10 ^ length fs)
              | _ \<Rightarrow> None))
      | _ \<Rightarrow> None)"

definition exponent :: "string \<Rightarrow> int option" where
  "exponent e =
     (case split_sign e of
        (sg, body) \<Rightarrow> map_option (\<lambda>ds. sg * int (dec_value ds)) (digitpart body))"

definition scale10 :: "real \<Rightarrow> int \<Rightarrow> real" where
  "scale10 m e = (if 0 \<le> e then m * 10 ^ nat e else m / 10 ^ nat (- e))"

definition py_float :: "string \<Rightarrow> pyfloat option" where
  "py_float s =
     (case split_sign (strip s) of
        (sg, body) \<Rightarrow>
          if map lower body \<in> {''inf'', ''infinity'', ''nan''} then Some (Special (strip s))
          else
            (let m = takeWhile (\<lambda>c. \<not> is_exp_mark c) body;
                 r = dropWhile (\<lambda>c. \<not> is_exp_mark c) body
             in case mantissa m of
                  None \<Rightarrow> None
                | Some v \<Rightarrow>
                    if r = [] then Some (Number (real_of_int sg * v))
                    else (case exponent (tl r) of
                            None \<Rightarrow> None
                          | Some e \<Rightarrow> Some (Number (real_of_int sg * scale10 v e)))))"

subsection \<open>The parser\<close>

text \<open>
  One comma-separated part. A part without a colon is skipped. A part with a colon is
  split at every colon and unpacked into two names; \<^verbatim>\<open>int\<close> is applied before
  \<^verbatim>\<open>float\<close>.
\<close>

definition parse_part :: "string \<Rightarrow> error + (int \<times> pyfloat) option" where
  "parse_part part0 =
     (let part = strip part0
      in if CHR '':'' \<in> set part then
           (case split_on CHR '':'' part of
              [frame_str, value_str] \<Rightarrow>
                (case py_int (strip frame_str) of
                   None \<Rightarrow> Inl (ValueError (InvalidInt (strip frame_str)))
                 | Some f \<Rightarrow>
                     (case py_float (strip_chars ''() '' value_str) of
                        None \<Rightarrow> Inl (ValueError (InvalidFloat (strip_chars ''() '' value_str)))
                      | Some v \<Rightarrow> Inr (Some (f, v))))
            | _ \<Rightarrow> Inl (ValueError TooManyValues))
         else Inr None)"

text \<open>The first loop: the parts in order, stopping at the first one that raises.\<close>

fun parse_parts :: "string list \<Rightarrow> error + (int \<times> pyfloat) list" where
  "parse_parts [] = Inr []"
| "parse_parts (p # ps) =
     (case parse_part p of
        Inl e \<Rightarrow> Inl e
      | Inr r \<Rightarrow>
          (case parse_parts ps of
             Inl e \<Rightarrow> Inl e
           | Inr points \<Rightarrow> Inr (case r of None \<Rightarrow> points | Some pt \<Rightarrow> pt # points)))"

definition parse_points :: "string \<Rightarrow> error + (int \<times> pyfloat) list" where
  "parse_points schedule = parse_parts (split_on CHR '','' schedule)"

text \<open>The inner loop over the points, in the order they were written.\<close>

fun around ::
  "int \<Rightarrow> (int \<times> pyfloat) list \<Rightarrow> (int \<times> pyfloat) option \<times> (int \<times> pyfloat) option
     \<Rightarrow> (int \<times> pyfloat) option \<times> (int \<times> pyfloat) option" where
  "around fr [] (bef, aft) = (bef, aft)"
| "around fr (p # ps) (bef, aft) =
     around fr ps
       (if fst p \<le> fr then Some p else bef,
        if fst p > fr \<and> aft = None then Some p else aft)"

text \<open>A value the real-valued model can go on with.\<close>

fun finite_value :: "pyfloat \<Rightarrow> error + real" where
  "finite_value (Number v) = Inr v"
| "finite_value (Special w) = Inl (NonFinite w)"

text \<open>
  The value appended for one frame. \<^verbatim>\<open>points[0]\<close> raises \<^verbatim>\<open>IndexError\<close> on an empty
  list. In the last branch the divisor is positive: \<open>fst b \<le> fr < fst a\<close>.
\<close>

definition value_at :: "(int \<times> pyfloat) list \<Rightarrow> int \<Rightarrow> error + real" where
  "value_at points fr =
     (case around fr points (None, None) of
        (None, _) \<Rightarrow> (case points of [] \<Rightarrow> Inl IndexError | p # _ \<Rightarrow> finite_value (snd p))
      | (Some b, None) \<Rightarrow> finite_value (snd b)
      | (Some b, Some a) \<Rightarrow>
          (case finite_value (snd b) of
             Inl e \<Rightarrow> Inl e
           | Inr vb \<Rightarrow>
               (case finite_value (snd a) of
                  Inl e \<Rightarrow> Inl e
                | Inr va \<Rightarrow>
                    Inr (vb + (va - vb)
                           * (real_of_int (fr - fst b) / real_of_int (fst a - fst b))))))"

text \<open>The outer loop over \<^verbatim>\<open>range(total_frames)\<close>.\<close>

fun values_for :: "(int \<times> pyfloat) list \<Rightarrow> int list \<Rightarrow> error + real list" where
  "values_for points [] = Inr []"
| "values_for points (fr # frs) =
     (case value_at points fr of
        Inl e \<Rightarrow> Inl e
      | Inr v \<Rightarrow> (case values_for points frs of Inl e \<Rightarrow> Inl e | Inr vs \<Rightarrow> Inr (v # vs)))"

definition parse_schedule_string :: "string \<Rightarrow> int \<Rightarrow> error + real list" where
  "parse_schedule_string schedule total_frames =
     (case parse_points schedule of
        Inl e \<Rightarrow> Inl e
      | Inr points \<Rightarrow> values_for points (map int [0..<nat total_frames]))"

text \<open>
  A part the first loop raises on: it has a colon and, split at its colons, does not have
  two fields, or its frame field is no integer literal, or its value field no float
  literal.
\<close>

definition malformed :: "string \<Rightarrow> bool" where
  "malformed part0 =
     (let part = strip part0
      in CHR '':'' \<in> set part \<and>
         (case split_on CHR '':'' part of
            [frame_str, value_str] \<Rightarrow>
              py_int (strip frame_str) = None \<or> py_float (strip_chars ''() '' value_str) = None
          | _ \<Rightarrow> True))"

section \<open>Images\<close>

text \<open>
  An image is an array of unsigned 8-bit samples. It is kept as the list of its channel
  planes (\<^verbatim>\<open>array[..., i]\<close> is plane \<open>i\<close>), each plane the list of its samples. The
  arithmetic on images goes through \<^verbatim>\<open>float32\<close> arrays, modelled as arrays of reals.
\<close>

type_synonym sample = "8 word"
type_synonym image = "sample list list"
type_synonym float_image = "real list list"

text \<open>\<^verbatim>\<open>np.array(image).astype(np.float32)\<close>\<close>

definition as_float :: "image \<Rightarrow> float_image" where
  "as_float img = map (map (\<lambda>x. real (unat x))) img"

text \<open>
  \<^verbatim>\<open>array.astype(np.uint8)\<close> on one sample: the fraction is dropped (towards zero), and
  a value outside 0..255 wraps around modulo 256, as the conversion does on the usual
  platforms.
\<close>

definition toward_zero :: "real \<Rightarrow> int" where
  "toward_zero x = (if 0 \<le> x then \<lfloor>x\<rfloor> else \<lceil>x\<rceil>)"

definition to_uint8 :: "real \<Rightarrow> sample" where
  "to_uint8 x = word_of_int (toward_zero x)"

definition as_uint8 :: "float_image \<Rightarrow> image" where
  "as_uint8 arr = map (map to_uint8) arr"

text \<open>
  Two arrays of the same shape combine sample by sample; NumPy raises on shapes that do
  not fit (broadcasting, which images of different sizes do not meet, is not modelled).
\<close>

definition same_shape :: "'a list list \<Rightarrow> 'b list list \<Rightarrow> bool" where
  "same_shape a b = (map length a = map length b)"

text \<open>The expression \<^verbatim>\<open>a * (1 - alpha) + b * alpha\<close> on float arrays of one shape.\<close>

definition weighted_sum :: "real \<Rightarrow> float_image \<Rightarrow> float_image \<Rightarrow> float_image" where
  "weighted_sum alpha a b = map2 (map2 (\<lambda>x y. x * (1 - alpha) + y * alpha)) a b"

subsection \<open>Temporal blending: \<^verbatim>\<open>_blend_frames\<close>\<close>

definition blend_frames :: "image \<Rightarrow> image \<Rightarrow> real \<Rightarrow> error + image" where
  "blend_frames current previous blend_strength =
     (if same_shape current previous
      then Inr (as_uint8 (weighted_sum blend_strength (as_float current) (as_float previous)))
      else Inl (External ''operands could not be broadcast together''))"

subsection \<open>Frame-rate upsampling: \<^verbatim>\<open>_interpolate_frames\<close>\<close>

text \<open>The frame the inner loop appends for one \<open>j\<close>: \<^verbatim>\<open>alpha = j / factor\<close>, cast to 8 bits.\<close>

definition inserted_frame :: "int \<Rightarrow> nat \<Rightarrow> image \<Rightarrow> image \<Rightarrow> image" where
  "inserted_frame factor j curr_frame next_frame =
     as_uint8 (weighted_sum (real j / real_of_int factor)
                 (as_float curr_frame) (as_float next_frame))"

text \<open>
  The inner loop \<^verbatim>\<open>for j in range(1, factor)\<close> for one pair of frames. With a factor
  of at most 1 the range is empty and no array is combined.
\<close>

definition inserted :: "image \<Rightarrow> image \<Rightarrow> int \<Rightarrow> error + image list" where
  "inserted curr_frame next_frame factor =
     (if factor \<le> 1 then Inr []
      else if same_shape curr_frame next_frame then
        Inr (map (\<lambda>j. inserted_frame factor j curr_frame next_frame) [1..<nat factor])
      else Inl (External ''operands could not be broadcast together''))"

text \<open>
  The body of the \<^verbatim>\<open>try\<close>: every frame but the last, each followed by its inserted
  frames, then \<^verbatim>\<open>frames[-1]\<close>, which raises \<^verbatim>\<open>IndexError\<close> on an empty list.
\<close>

fun interpolated :: "image list \<Rightarrow> int \<Rightarrow> error + image list" where
  "interpolated [] factor = Inl IndexError"
| "interpolated [a] factor = Inr [a]"
| "interpolated (a # b # rest) factor =
     (case inserted a b factor of
        Inl e \<Rightarrow> Inl e
      | Inr mids \<Rightarrow>
          (case interpolated (b # rest) factor of
             Inl e \<Rightarrow> Inl e
           | Inr out \<Rightarrow> Inr (a # mids @ out)))"

text \<open>\<^verbatim>\<open>except Exception\<close>: any failure returns the frames as they came.\<close>

definition interpolate_frames :: "image list \<Rightarrow> int \<Rightarrow> image list" where
  "interpolate_frames frames factor =
     (case interpolated frames factor of Inl e \<Rightarrow> frames | Inr out \<Rightarrow> out)"

subsection \<open>Color coherence: \<^verbatim>\<open>_apply_color_coherence\<close>\<close>

text \<open>\<^verbatim>\<open>array.mean()\<close> and \<^verbatim>\<open>array.std()\<close> of one plane: the population standard deviation.\<close>

definition mean :: "real list \<Rightarrow> real" where
  "mean xs = sum_list xs / real (length xs)"

definition std :: "real list \<Rightarrow> real" where
  "std xs = sqrt (mean (map (\<lambda>x. (x - mean xs)\<^sup>2) xs))"

text \<open>The body of \<^verbatim>\<open>for i in range(3)\<close> for one channel.\<close>

definition match_channel :: "real list \<Rightarrow> real list \<Rightarrow> real list" where
  "match_channel cur ref =
     (if std cur > 0
      then map (\<lambda>x. (x - mean cur) * (std ref / std cur) + mean ref) cur
      else cur)"

text \<open>
  The loop over the first three channels. Indexing a channel an array does not have
  raises \<^verbatim>\<open>IndexError\<close>; a fourth channel is left as it is.
\<close>

definition match_channels :: "float_image \<Rightarrow> float_image \<Rightarrow> error + float_image" where
  "match_channels cur ref =
     (if length cur < 3 \<or> length ref < 3 then Inl IndexError
      else Inr (map (\<lambda>i. if i < 3 then match_channel (cur ! i) (ref ! i) else cur ! i)
                  [0..<length cur]))"

text \<open>
  The color space conversions are OpenCV's: \<open>cvtColor code img\<close> stands for
  \<^verbatim>\<open>cv2.cvtColor(img, code)\<close> on 8-bit images. The arrays in the color space the method
  names, as floats:
\<close>

definition in_color_space :: "(string \<Rightarrow> image \<Rightarrow> image) \<Rightarrow> string \<Rightarrow> image \<Rightarrow> float_image" where
  "in_color_space cvtColor method img =
     (if method = ''Match Frame 0 LAB'' then as_float (cvtColor ''COLOR_RGB2LAB'' img)
      else if method = ''Match Frame 0 HSV'' then as_float (cvtColor ''COLOR_RGB2HSV'' img)
      else as_float img)"

definition from_color_space :: "(string \<Rightarrow> image \<Rightarrow> image) \<Rightarrow> string \<Rightarrow> float_image \<Rightarrow> image" where
  "from_color_space cvtColor method arr =
     (if method = ''Match Frame 0 LAB'' then cvtColor ''COLOR_LAB2RGB'' (as_uint8 arr)
      else if method = ''Match Frame 0 HSV'' then cvtColor ''COLOR_HSV2RGB'' (as_uint8 arr)
      else as_uint8 arr)"

text \<open>The matched channels in the chosen color space, before the conversion back.\<close>

definition matched :: "(string \<Rightarrow> image \<Rightarrow> image) \<Rightarrow> string \<Rightarrow> image \<Rightarrow> image \<Rightarrow> error + float_image" where
  "matched cvtColor method current reference =
     match_channels (in_color_space cvtColor method current)
                    (in_color_space cvtColor method reference)"

definition apply_color_coherence ::
  "(string \<Rightarrow> image \<Rightarrow> image) \<Rightarrow> image \<Rightarrow> image \<Rightarrow> string \<Rightarrow> error + image" where
  "apply_color_coherence cvtColor current reference method =
     (case matched cvtColor method current reference of
        Inl e \<Rightarrow> Inl e
      | Inr arr \<Rightarrow> Inr (from_color_space cvtColor method arr))"

section \<open>The run: \<^verbatim>\<open>generate_animation\<close> and \<^verbatim>\<open>_generate_frame\<close>\<close>

text \<open>
  The fields of \<^verbatim>\<open>GenerativeAnimationConfig\<close> the run reads. Two of them share their
  name with a field of the keyframe and carry the prefix \<open>cfg\<close> here.
\<close>

record GenerativeAnimationConfig =
  total_frames :: int
  steps :: int
  cfg_scale :: real
  animation_mode :: string
  border :: string
  cfg_color_coherence :: string
  cfg_diffusion_cadence :: int
  temporal_strength :: real
  temporal_layers :: int
  use_animatediff :: bool
  use_optical_flow :: bool
  use_frame_interpolation :: bool
  interpolation_factor :: int
  keyframes :: "AnimationKeyframe list"

text \<open>
  One call of the diffusion pipeline, the synthesis oracle: the keyword arguments the code
  passes. The generator is seeded only when the keyframe's seed is positive;
  \<^verbatim>\<open>num_frames\<close> is passed to AnimateDiff only. The ControlNet images are always the
  empty list (\<^verbatim>\<open>_prepare_controlnet_inputs\<close> is a placeholder), so \<^verbatim>\<open>control_image\<close>
  is always \<^verbatim>\<open>None\<close> and is left out.
\<close>

record pipeline_call =
  call_prompt :: string
  call_negative_prompt :: string
  call_image :: image
  call_num_frames :: "int option"
  call_strength :: real
  call_guidance_scale :: real
  call_num_inference_steps :: int
  call_seed :: "int option"

text \<open>
  What the run calls and this repository does not define, or defines through OpenCV:
  the color conversions, the geometric warp \<^verbatim>\<open>_apply_transforms\<close>, the optical-flow
  remapping \<^verbatim>\<open>_apply_optical_flow\<close>, the pipeline, and the outcome of loading the
  pipeline when the run starts (\<open>None\<close>: loaded, or already there).
\<close>

record collaborators =
  cvt_color :: "string \<Rightarrow> image \<Rightarrow> image"
  apply_transforms :: "image \<Rightarrow> AnimationKeyframe \<Rightarrow> string \<Rightarrow> string \<Rightarrow> image"
  apply_optical_flow :: "image \<Rightarrow> image \<Rightarrow> image"
  pipeline :: "pipeline_call \<Rightarrow> error + image"
  load_pipeline :: "error option"

text \<open>The stages a frame goes through, recorded in the order they run.\<close>

datatype stage = Warp | Flow | Synthesis | ColorCoherence | TemporalBlend

definition pipeline_arguments ::
  "image \<Rightarrow> AnimationKeyframe \<Rightarrow> GenerativeAnimationConfig \<Rightarrow> pipeline_call" where
  "pipeline_arguments warped_image keyframe config =
     \<lparr> call_prompt = prompt keyframe,
       call_negative_prompt = negative_prompt keyframe,
       call_image = warped_image,
       call_num_frames = (if use_animatediff config then Some (temporal_layers config) else None),
       call_strength = strength keyframe,
       call_guidance_scale = cfg_scale config,
       call_num_inference_steps = steps config,
       call_seed = (if seed keyframe > 0 then Some (seed keyframe) else None) \<rparr>"

text \<open>The last step of the synthesis branch: blending with the most recent frame.\<close>

definition temporal_blend ::
  "image list \<Rightarrow> image \<Rightarrow> GenerativeAnimationConfig \<Rightarrow> stage list
     \<Rightarrow> stage list \<times> (error + image)" where
  "temporal_blend history output config trace =
     (if temporal_strength config > 0 \<and> history \<noteq> []
      then (trace @ [TemporalBlend],
            blend_frames output (last history) (temporal_strength config))
      else (trace, Inr output))"

text \<open>Color coherence against the oldest frame of the history, then the blend.\<close>

definition coherence_and_blend ::
  "collaborators \<Rightarrow> image list \<Rightarrow> image \<Rightarrow> GenerativeAnimationConfig \<Rightarrow> stage list
     \<Rightarrow> stage list \<times> (error + image)" where
  "coherence_and_blend env history output config trace =
     (if cfg_color_coherence config \<noteq> ''None'' \<and> history \<noteq> [] then
        (case apply_color_coherence (cvt_color env) output (hd history)
                (cfg_color_coherence config) of
           Inl e \<Rightarrow> (trace @ [ColorCoherence], Inl e)
         | Inr matched_output \<Rightarrow>
             temporal_blend history matched_output config (trace @ [ColorCoherence]))
      else temporal_blend history output config trace)"

text \<open>The branch taken on a cadence frame.\<close>

definition synthesize ::
  "collaborators \<Rightarrow> image list \<Rightarrow> image \<Rightarrow> AnimationKeyframe \<Rightarrow> GenerativeAnimationConfig
     \<Rightarrow> stage list \<Rightarrow> stage list \<times> (error + image)" where
  "synthesize env history warped_image keyframe config trace =
     (case pipeline env (pipeline_arguments warped_image keyframe config) of
        Inl e \<Rightarrow> (trace @ [Synthesis], Inl e)
      | Inr output \<Rightarrow> coherence_and_blend env history output config (trace @ [Synthesis]))"

text \<open>
  \<^verbatim>\<open>_generate_frame\<close>, with \<^verbatim>\<open>self.previous_frames\<close> as the argument \<open>history\<close>. The result
  is the stages that ran and the frame, or the exception. Python's \<^verbatim>\<open>%\<close> on integers
  is \<open>mod\<close>, and raises on a zero divisor.
\<close>

definition generate_frame ::
  "collaborators \<Rightarrow> image list \<Rightarrow> image \<Rightarrow> int \<Rightarrow> AnimationKeyframe
     \<Rightarrow> GenerativeAnimationConfig \<Rightarrow> stage list \<times> (error + image)" where
  "generate_frame env history prev_image frame_idx keyframe config =
     (let flow = (use_optical_flow config \<and> history \<noteq> []);
          transformed = apply_transforms env prev_image keyframe
                          (animation_mode config) (border config);
          warped_image = (if flow then apply_optical_flow env transformed (last history)
                          else transformed);
          trace = Warp # (if flow then [Flow] else [])
      in if cfg_diffusion_cadence config = 0 then (trace, Inl ZeroDivisionError)
         else if frame_idx mod cfg_diffusion_cadence config = 0
         then synthesize env history warped_image keyframe config trace
         else (trace, Inr warped_image))"

text \<open>The frame \<^verbatim>\<open>_generate_frame\<close> returns on a frame the cadence skips.\<close>

definition warped ::
  "collaborators \<Rightarrow> image list \<Rightarrow> image \<Rightarrow> AnimationKeyframe
     \<Rightarrow> GenerativeAnimationConfig \<Rightarrow> image" where
  "warped env history prev_image keyframe config =
     (if use_optical_flow config \<and> history \<noteq> []
      then apply_optical_flow env
             (apply_transforms env prev_image keyframe (animation_mode config) (border config))
             (last history)
      else apply_transforms env prev_image keyframe (animation_mode config) (border config))"

subsection \<open>Audio features resampled to the frame count: \<^verbatim>\<open>_parse_audio_data\<close>\<close>

text \<open>\<^verbatim>\<open>np.linspace(start, stop, num)\<close> for \<open>num \<ge> 0\<close>.\<close>

definition linspace :: "real \<Rightarrow> real \<Rightarrow> nat \<Rightarrow> real list" where
  "linspace start stop num =
     (if num = 1 then [start]
      else map (\<lambda>k. start + real k * ((stop - start) / real (num - 1))) [0..<num])"

text \<open>
  \<^verbatim>\<open>np.interp(x, np.arange(len(fp)), fp)\<close> at one point, for a non-empty \<open>fp\<close>: held at
  both ends, linear between two neighbours.
\<close>

definition interp_at :: "real list \<Rightarrow> real \<Rightarrow> real" where
  "interp_at fp x =
     (if x \<le> 0 then fp ! 0
      else if real (length fp - 1) \<le> x then fp ! (length fp - 1)
      else fp ! nat \<lfloor>x\<rfloor> + (fp ! Suc (nat \<lfloor>x\<rfloor>) - fp ! nat \<lfloor>x\<rfloor>) * (x - real (nat \<lfloor>x\<rfloor>)))"

text \<open>
  The dict of the audio features that are lists, in insertion order. NumPy raises on a
  negative number of samples and on an empty list of sample points.
\<close>

fun parse_audio_data :: "(string \<times> real list) list \<Rightarrow> int \<Rightarrow> error + audio_params" where
  "parse_audio_data [] n_frames = Inr []"
| "parse_audio_data ((key, vals) # rest) n_frames =
     (if n_frames < 0 then Inl (External ''Number of samples must be non-negative'')
      else if vals = [] then Inl (External ''array of sample points is empty'')
      else (case parse_audio_data rest n_frames of
              Inl e \<Rightarrow> Inl e
            | Inr params \<Rightarrow>
                Inr ((key, map (interp_at vals) (linspace 0 (real (length vals)) (nat n_frames)))
                       # params)))"

subsection \<open>The loop over the frames\<close>

text \<open>
  The state of a run: the frames produced, \<^verbatim>\<open>self.previous_frames\<close>, the current fields
  of the keyframe objects of \<^verbatim>\<open>config.keyframes\<close>, and the calls made to the progress
  callback. A callback is a function of its two arguments that returns or raises.
\<close>

record run_state =
  st_frames :: "image list"
  st_previous_frames :: "image list"
  st_keyframes :: "AnimationKeyframe list"
  st_calls :: "(int \<times> int) list"

type_synonym callback = "int \<Rightarrow> int \<Rightarrow> error option"

definition call_progress ::
  "callback option \<Rightarrow> int \<Rightarrow> int \<Rightarrow> run_state \<Rightarrow> run_state \<times> error option" where
  "call_progress progress_callback frame_idx n_frames st =
     (case progress_callback of
        None \<Rightarrow> (st, None)
      | Some cb \<Rightarrow> (st\<lparr>st_calls := st_calls st @ [(frame_idx, n_frames)]\<rparr>, cb frame_idx n_frames))"

text \<open>Resolving the keyframe and, when there are audio features, modulating it in place.\<close>

definition resolve_keyframe ::
  "audio_params \<Rightarrow> nat \<Rightarrow> run_state \<Rightarrow> run_state \<times> AnimationKeyframe \<times> error option" where
  "resolve_keyframe audio i st =
     (if audio \<noteq> [] then
        (case apply_audio_reactivity_ref (st_keyframes st)
                (get_keyframe_ref (int i) (st_keyframes st)) audio i of
           (kfs, r, e) \<Rightarrow> (st\<lparr>st_keyframes := kfs\<rparr>, deref kfs r, e))
      else (st, get_keyframe_at_frame (int i) (st_keyframes st), None))"

text \<open>\<^verbatim>\<open>init_image if frame_idx == 0 else frames[-1]\<close>\<close>

definition previous_image :: "image \<Rightarrow> nat \<Rightarrow> image list \<Rightarrow> error + image" where
  "previous_image init_image i produced =
     (if i = 0 then Inr init_image
      else if produced = [] then Inl IndexError
      else Inr (last produced))"

text \<open>Appending to \<^verbatim>\<open>self.previous_frames\<close>, dropping the oldest frame when over capacity.\<close>

definition push_history :: "image list \<Rightarrow> image \<Rightarrow> int \<Rightarrow> image list" where
  "push_history history frame_img layers =
     (if int (length (history @ [frame_img])) > layers then tl (history @ [frame_img])
      else history @ [frame_img])"

text \<open>
  One turn of the loop. The result is the state when the turn ends and the exception, if
  the turn ends by one.
\<close>

definition frame_step ::
  "collaborators \<Rightarrow> GenerativeAnimationConfig \<Rightarrow> audio_params \<Rightarrow> callback option \<Rightarrow> image
     \<Rightarrow> nat \<Rightarrow> run_state \<Rightarrow> run_state \<times> error option" where
  "frame_step env config audio progress_callback init_image i st =
     (case call_progress progress_callback (int i) (total_frames config) st of
        (st1, Some e) \<Rightarrow> (st1, Some e)
      | (st1, None) \<Rightarrow>
          (case resolve_keyframe audio i st1 of
             (st2, keyframe, Some e) \<Rightarrow> (st2, Some e)
           | (st2, keyframe, None) \<Rightarrow>
               (case previous_image init_image i (st_frames st2) of
                  Inl e \<Rightarrow> (st2, Some e)
                | Inr prev_image \<Rightarrow>
                    (case snd (generate_frame env (st_previous_frames st2) prev_image (int i)
                                 keyframe config) of
                       Inl e \<Rightarrow> (st2, Some e)
                     | Inr frame_img \<Rightarrow>
                         (st2\<lparr> st_frames := st_frames st2 @ [frame_img],
                               st_previous_frames :=
                                 push_history (st_previous_frames st2) frame_img
                                   (temporal_layers config) \<rparr>, None)))))"

fun frame_loop ::
  "collaborators \<Rightarrow> GenerativeAnimationConfig \<Rightarrow> audio_params \<Rightarrow> callback option \<Rightarrow> image
     \<Rightarrow> nat list \<Rightarrow> run_state \<Rightarrow> run_state \<times> error option" where
  "frame_loop env config audio progress_callback init_image [] st = (st, None)"
| "frame_loop env config audio progress_callback init_image (i # rest) st =
     (case frame_step env config audio progress_callback init_image i st of
        (st', Some e) \<Rightarrow> (st', Some e)
      | (st', None) \<Rightarrow> frame_loop env config audio progress_callback init_image rest st')"

definition initial_state :: "GenerativeAnimationConfig \<Rightarrow> run_state" where
  "initial_state config =
     \<lparr> st_frames = [], st_previous_frames = [], st_keyframes = keyframes config,
       st_calls = [] \<rparr>"

text \<open>
  The run up to the end of the loop: the state it leaves, with the keyframes of the
  configuration as they are then, and the exception if one ended it.
\<close>

definition run_frames ::
  "collaborators \<Rightarrow> image \<Rightarrow> GenerativeAnimationConfig \<Rightarrow> (string \<times> real list) list
     \<Rightarrow> callback option \<Rightarrow> run_state \<times> error option" where
  "run_frames env init_image config audio_data progress_callback =
     (case load_pipeline env of
        Some e \<Rightarrow> (initial_state config, Some e)
      | None \<Rightarrow>
          (case (if audio_data \<noteq> [] then parse_audio_data audio_data (total_frames config)
                 else Inr []) of
             Inl e \<Rightarrow> (initial_state config, Some e)
           | Inr audio \<Rightarrow>
               frame_loop env config audio progress_callback init_image
                 [0..<nat (total_frames config)] (initial_state config)))"

definition generate_animation ::
  "collaborators \<Rightarrow> image \<Rightarrow> GenerativeAnimationConfig \<Rightarrow> (string \<times> real list) list
     \<Rightarrow> callback option \<Rightarrow> error + image list" where
  "generate_animation env init_image config audio_data progress_callback =
     (case run_frames env init_image config audio_data progress_callback of
        (st, Some e) \<Rightarrow> Inl e
      | (st, None) \<Rightarrow>
          Inr (if use_frame_interpolation config \<and> interpolation_factor config > 1
               then interpolate_frames (st_frames st) (interpolation_factor config)
               else st_frames st))"

text \<open>
  Collaborators that leave every image as it is and never fail, and a configuration with
  the defaults of the dataclass, for evaluating the run on small inputs.
\<close>

definition still :: collaborators where
  "still = \<lparr> cvt_color = (\<lambda>code img. img),
             apply_transforms = (\<lambda>img keyframe mode border_mode. img),
             apply_optical_flow = (\<lambda>img previous. img),
             pipeline = (\<lambda>call. Inr (call_image call)),
             load_pipeline = None \<rparr>"

definition default_config :: "int \<Rightarrow> AnimationKeyframe list \<Rightarrow> GenerativeAnimationConfig" where
  "default_config n_frames kfs =
     \<lparr> total_frames = n_frames, steps = 30, cfg_scale = 7, animation_mode = ''3D'',
       border = ''replicate'', cfg_color_coherence = ''Match Frame 0 LAB'',
       cfg_diffusion_cadence = 1, temporal_strength = 1 / 2, temporal_layers = 2,
       use_animatediff = False, use_optical_flow = True, use_frame_interpolation = True,
       interpolation_factor = 2, keyframes = kfs \<rparr>"

section \<open>Properties of keyframe interpolation\<close>

lemma surrounding_before:
  "fst (surrounding idx kfs js (b0, a0)) =
     (case filter (\<lambda>i. frame (kfs ! i) \<le> idx) js of [] \<Rightarrow> b0 | xs \<Rightarrow> Some (last xs))"
  by (induction js arbitrary: b0 a0) (auto split: list.splits)

lemma surrounding_after:
  "snd (surrounding idx kfs js (b0, a0)) =
     (case a0 of
        Some a \<Rightarrow> Some a
      | None \<Rightarrow> (case filter (\<lambda>i. frame (kfs ! i) > idx) js of [] \<Rightarrow> None | x # _ \<Rightarrow> Some x))"
  by (induction js arbitrary: b0 a0) (auto split: list.splits option.splits)

lemma sorted_key_last:
  "sorted (map f xs) \<Longrightarrow> x \<in> set xs \<Longrightarrow> f x \<le> f (last xs)"
  by (induction xs) auto

lemma sorted_key_hd:
  "sorted (map f xs) \<Longrightarrow> x \<in> set xs \<Longrightarrow> f (hd xs) \<le> f x"
  by (induction xs) auto

lemma sorted_keyframes_set: "set (sorted_keyframes kfs) = {0..<length kfs}"
  by (simp add: sorted_keyframes_def)

lemma sorted_keyframes_sorted: "sorted (map (\<lambda>i. frame (kfs ! i)) (sorted_keyframes kfs))"
  by (simp add: sorted_keyframes_def)

lemma surrounding_frames:
  assumes "surrounding idx kfs js (None, None) = (Some b, Some a)"
  shows "b \<in> set js \<and> a \<in> set js \<and> frame (kfs ! b) \<le> idx \<and> idx < frame (kfs ! a)"
proof -
  let ?B = "filter (\<lambda>i. frame (kfs ! i) \<le> idx) js"
  let ?A = "filter (\<lambda>i. frame (kfs ! i) > idx) js"
  from assms have "fst (surrounding idx kfs js (None, None)) = Some b"
    and "snd (surrounding idx kfs js (None, None)) = Some a" by simp_all
  then have B: "?B \<noteq> [] \<and> b = last ?B" and A: "?A \<noteq> [] \<and> a = hd ?A"
    by (auto simp: surrounding_before surrounding_after split: list.splits)
  from B have "b \<in> set ?B" using last_in_set by blast
  moreover from A have "a \<in> set ?A" using hd_in_set by blast
  ultimately show ?thesis by auto
qed

lemma surrounding_finds:
  assumes sorted: "sorted (map (\<lambda>i. frame (kfs ! i)) js)"
    and b: "ib \<in> set js" "frame (kfs ! ib) \<le> idx"
    and a: "ia \<in> set js" "idx < frame (kfs ! ia)"
    and gap: "\<forall>j\<in>set js. frame (kfs ! j) \<le> frame (kfs ! ib) \<or> frame (kfs ! ia) \<le> frame (kfs ! j)"
  shows "\<exists>b a. surrounding idx kfs js (None, None) = (Some b, Some a)
           \<and> b \<in> set js \<and> a \<in> set js
           \<and> frame (kfs ! b) = frame (kfs ! ib) \<and> frame (kfs ! a) = frame (kfs ! ia)"
proof -
  let ?key = "\<lambda>i. frame (kfs ! i)"
  let ?B = "filter (\<lambda>i. ?key i \<le> idx) js"
  let ?A = "filter (\<lambda>i. ?key i > idx) js"
  have Bne: "?B \<noteq> []" using b by (auto simp: filter_empty_conv)
  have Ane: "?A \<noteq> []" using a by (auto simp: filter_empty_conv)
  have sB: "sorted (map ?key ?B)" and sA: "sorted (map ?key ?A)"
    using sorted by (rule sorted_filter)+
  have lastB: "last ?B \<in> set ?B" using Bne by (rule last_in_set)
  have hdA: "hd ?A \<in> set ?A" using Ane by (rule hd_in_set)
  have "ib \<in> set ?B" using b by simp
  then have "?key ib \<le> ?key (last ?B)" using sB by (rule sorted_key_last [rotated])
  moreover have "?key (last ?B) \<le> ?key ib"
    using lastB gap a by fastforce
  ultimately have eb: "?key (last ?B) = ?key ib" by simp
  have "ia \<in> set ?A" using a by simp
  then have "?key (hd ?A) \<le> ?key ia" using sA by (rule sorted_key_hd [rotated])
  moreover have "?key ia \<le> ?key (hd ?A)"
    using hdA gap b by fastforce
  ultimately have ea: "?key (hd ?A) = ?key ia" by simp
  have "fst (surrounding idx kfs js (None, None)) = Some (last ?B)"
    using Bne by (simp add: surrounding_before split: list.splits)
  moreover have "snd (surrounding idx kfs js (None, None)) = Some (hd ?A)"
    using Ane by (simp add: surrounding_after split: list.splits)
  ultimately have "surrounding idx kfs js (None, None) = (Some (last ?B), Some (hd ?A))"
    by (simp add: prod_eq_iff)
  with eb ea lastB hdA show ?thesis by auto
qed

lemma get_keyframe_between:
  assumes d: "distinct (map frame kfs)"
    and b: "b \<in> set kfs" "frame b \<le> idx"
    and a: "a \<in> set kfs" "idx < frame a"
    and gap: "\<forall>k\<in>set kfs. frame k \<le> frame b \<or> frame a \<le> frame k"
  shows "get_keyframe_ref idx kfs = Fresh (interpolate_keyframe idx b a)"
proof -
  from b obtain ib where ib: "ib < length kfs" "kfs ! ib = b" by (auto simp: in_set_conv_nth)
  from a obtain ia where ia: "ia < length kfs" "kfs ! ia = a" by (auto simp: in_set_conv_nth)
  let ?js = "sorted_keyframes kfs"
  have gap': "\<forall>j\<in>set ?js. frame (kfs ! j) \<le> frame (kfs ! ib) \<or> frame (kfs ! ia) \<le> frame (kfs ! j)"
    using gap ib ia by (simp add: sorted_keyframes_set)
  from surrounding_finds [OF sorted_keyframes_sorted, of ib kfs idx ia] ib ia b a gap'
  obtain b' a' where s: "surrounding idx kfs ?js (None, None) = (Some b', Some a')"
    and m: "b' \<in> set ?js" "a' \<in> set ?js"
    and f: "frame (kfs ! b') = frame (kfs ! ib)" "frame (kfs ! a') = frame (kfs ! ia)"
    by (auto simp: sorted_keyframes_set)
  from m have lt: "b' < length kfs" "a' < length kfs" by (simp_all add: sorted_keyframes_set)
  have inj: "\<And>i j. i < length kfs \<Longrightarrow> j < length kfs \<Longrightarrow> frame (kfs ! i) = frame (kfs ! j) \<Longrightarrow> i = j"
    using d by (metis distinct_conv_nth length_map nth_map)
  from inj [OF lt(1) ib(1) f(1)] inj [OF lt(2) ia(1) f(2)] have "b' = ib" "a' = ia" .
  with s ib ia b show ?thesis
    by (auto simp: get_keyframe_ref_def)
qed

text \<open>
  Claim C10. Let \<open>bef\<close> and \<open>aft\<close> be keyframes of a list with pairwise distinct frames, with
  no keyframe strictly between them, and let \<open>idx\<close> lie strictly between their frames. Then
  the keyframe resolved at \<open>idx\<close> has the negative prompt and the seed of \<open>bef\<close>, also when
  \<open>t \<ge> 1/2\<close> and the prompt is already that of \<open>aft\<close>.
\<close>

theorem between_keeps_negative_prompt_and_seed:
  assumes "distinct (map frame kfs)"
    and "bef \<in> set kfs" and "aft \<in> set kfs"
    and "frame bef < idx" and "idx < frame aft"
    and "\<forall>k\<in>set kfs. frame k \<le> frame bef \<or> frame aft \<le> frame k"
  shows "negative_prompt (get_keyframe_at_frame idx kfs) = negative_prompt bef
       \<and> seed (get_keyframe_at_frame idx kfs) = seed bef
       \<and> (1 / 2 \<le> real_of_int (idx - frame bef) / real_of_int (frame aft - frame bef)
            \<longrightarrow> prompt (get_keyframe_at_frame idx kfs) = prompt aft)"
proof -
  have "get_keyframe_ref idx kfs = Fresh (interpolate_keyframe idx bef aft)"
    using assms by (intro get_keyframe_between) auto
  then show ?thesis
    by (simp add: get_keyframe_at_frame_def interpolate_keyframe_def new_keyframe_def Let_def)
qed

theorem between_keeps_negative_prompt_and_seed_witness:
  "negative_prompt (get_keyframe_at_frame 5
      [(new_keyframe 0 ''a'')\<lparr>negative_prompt := ''n0'', seed := 7\<rparr>,
       (new_keyframe 10 ''b'')\<lparr>negative_prompt := ''n1'', seed := 9\<rparr>]) = ''n0''
   \<and> seed (get_keyframe_at_frame 5
      [(new_keyframe 0 ''a'')\<lparr>negative_prompt := ''n0'', seed := 7\<rparr>,
       (new_keyframe 10 ''b'')\<lparr>negative_prompt := ''n1'', seed := 9\<rparr>]) = 7
   \<and> prompt (get_keyframe_at_frame 5
      [(new_keyframe 0 ''a'')\<lparr>negative_prompt := ''n0'', seed := 7\<rparr>,
       (new_keyframe 10 ''b'')\<lparr>negative_prompt := ''n1'', seed := 9\<rparr>]) = ''b''"
  using between_keeps_negative_prompt_and_seed
    [of "[(new_keyframe 0 ''a'')\<lparr>negative_prompt := ''n0'', seed := 7\<rparr>,
          (new_keyframe 10 ''b'')\<lparr>negative_prompt := ''n1'', seed := 9\<rparr>]"
        "(new_keyframe 0 ''a'')\<lparr>negative_prompt := ''n0'', seed := 7\<rparr>"
        "(new_keyframe 10 ''b'')\<lparr>negative_prompt := ''n1'', seed := 9\<rparr>" 5]
  by (simp add: new_keyframe_def)

text \<open>
  Claim C3. When the queried index is the frame of a keyframe and a later keyframe exists,
  the function does not return the keyframe: it builds a new one at \<open>t = 0\<close>, and the
  three perspective-flip angles are not passed to the constructor. A keyframe at frame 0
  with \<^verbatim>\<open>perspective_flip_theta = 10\<close>, followed by a keyframe at frame 10, resolves at
  index 0 to a keyframe whose \<^verbatim>\<open>perspective_flip_theta\<close> is the default 0. With no later
  keyframe the same keyframe is returned as it is.
\<close>

theorem exact_keyframe_loses_perspective_flip:
  "perspective_flip_theta (get_keyframe_at_frame 0
      [(new_keyframe 0 ''a'')\<lparr>perspective_flip_theta := 10\<rparr>, new_keyframe 10 ''b'']) = 0
   \<and> perspective_flip_theta (get_keyframe_at_frame 0
      [(new_keyframe 0 ''a'')\<lparr>perspective_flip_theta := 10\<rparr>]) = 10"
  by (simp add: get_keyframe_at_frame_def get_keyframe_ref_def sorted_keyframes_def
      new_keyframe_def interpolate_keyframe_def upt_rec)

section \<open>Properties of audio reactivity\<close>

lemma feature_covered:
  assumes "features_cover ap i" and "name \<in> {''bass'', ''treble'', ''energy''}"
  shows "feature ap name i = Inr (map_option (\<lambda>vs. vs ! i) (map_of ap name))"
  using assms by (auto simp: features_cover_def feature_def split: option.splits)

lemma apply_audio_reactivity_covered:
  assumes "features_cover ap i"
  shows "apply_audio_reactivity kf ap i =
     (kf\<lparr> zoom := (case map_of ap ''bass'' of None \<Rightarrow> zoom kf
                    | Some vs \<Rightarrow> zoom kf * (1 + vs ! i * (2 / 10))),
          angle := (case map_of ap ''treble'' of None \<Rightarrow> angle kf
                    | Some vs \<Rightarrow> angle kf + vs ! i * 45),
          strength := (case map_of ap ''energy'' of None \<Rightarrow> strength kf
                    | Some vs \<Rightarrow> 1 / 2 + vs ! i * (1 / 2)) \<rparr>, None)"
  by (simp add: apply_audio_reactivity_def feature_covered [OF assms] modulate_zoom_def
      modulate_angle_def modulate_strength_def split: option.splits)

text \<open>
  Claim C5. At a frame every array covers, audio modulation raises nothing and: a
  \<^verbatim>\<open>bass\<close> value of 1 gives \<open>zoom * 1.2\<close>; an \<^verbatim>\<open>energy\<close> value of 0.4 gives strength
  0.7; a \<^verbatim>\<open>treble\<close> value \<open>v\<close> adds \<open>v * 45\<close> to the angle; and when none of the three
  names is present, whatever other names are, the keyframe is unchanged in every field.
\<close>

theorem audio_modulation_rules:
  assumes "features_cover ap i"
  shows "snd (apply_audio_reactivity kf ap i) = None
    \<and> (\<forall>vs. map_of ap ''bass'' = Some vs \<and> vs ! i = 1 \<longrightarrow>
            zoom (fst (apply_audio_reactivity kf ap i)) = zoom kf * (12 / 10))
    \<and> (\<forall>vs. map_of ap ''energy'' = Some vs \<and> vs ! i = 4 / 10 \<longrightarrow>
            strength (fst (apply_audio_reactivity kf ap i)) = 7 / 10)
    \<and> (\<forall>vs. map_of ap ''treble'' = Some vs \<longrightarrow>
            angle (fst (apply_audio_reactivity kf ap i)) = angle kf + vs ! i * 45)
    \<and> (map_of ap ''bass'' = None \<and> map_of ap ''treble'' = None \<and> map_of ap ''energy'' = None
           \<longrightarrow> fst (apply_audio_reactivity kf ap i) = kf)"
  by (simp add: apply_audio_reactivity_covered [OF assms])

theorem audio_modulation_rules_witness:
  "features_cover [(''bass'', [1]), (''energy'', [4 / 10]), (''pitch'', [])] 0
   \<and> zoom (fst (apply_audio_reactivity (new_keyframe 0 ''p'')
         [(''bass'', [1]), (''energy'', [4 / 10]), (''pitch'', [])] 0)) = 12 / 10
   \<and> strength (fst (apply_audio_reactivity (new_keyframe 0 ''p'')
         [(''bass'', [1]), (''energy'', [4 / 10]), (''pitch'', [])] 0)) = 7 / 10"
proof -
  let ?ap = "[(''bass'', [1]), (''energy'', [4 / 10]), (''pitch'', [])] :: audio_params"
  have c: "features_cover ?ap 0"
    by (simp add: features_cover_def)
  have b: "map_of ?ap ''bass'' = Some [1] \<and> [1::real] ! 0 = 1"
    by simp
  have e: "map_of ?ap ''energy'' = Some [4 / 10] \<and> [4 / 10 :: real] ! 0 = 4 / 10"
    by simp
  have z: "zoom (new_keyframe 0 ''p'') = 1"
    by (simp add: new_keyframe_def)
  note t = audio_modulation_rules [OF c, of "new_keyframe 0 ''p''"]
  from t have "\<forall>vs. map_of ?ap ''bass'' = Some vs \<and> vs ! 0 = 1 \<longrightarrow>
      zoom (fst (apply_audio_reactivity (new_keyframe 0 ''p'') ?ap 0))
        = zoom (new_keyframe 0 ''p'') * (12 / 10)"
    by (rule conjunct1 [OF conjunct2])
  with b have 1: "zoom (fst (apply_audio_reactivity (new_keyframe 0 ''p'') ?ap 0))
        = zoom (new_keyframe 0 ''p'') * (12 / 10)"
    by blast
  from t have "\<forall>vs. map_of ?ap ''energy'' = Some vs \<and> vs ! 0 = 4 / 10 \<longrightarrow>
      strength (fst (apply_audio_reactivity (new_keyframe 0 ''p'') ?ap 0)) = 7 / 10"
    by (rule conjunct1 [OF conjunct2 [OF conjunct2]])
  with e have 2: "strength (fst (apply_audio_reactivity (new_keyframe 0 ''p'') ?ap 0)) = 7 / 10"
    by blast
  show ?thesis using c 1 2 z by simp
qed
section \<open>Properties of the schedule parser\<close>












lemma parse_part_cases:
  "parse_part p =
     (if \<not> CHR '':'' \<in> set (strip p) then Inr None
      else case split_on CHR '':'' (strip p) of
             [fs, vs] \<Rightarrow>
               (case py_int (strip fs) of
                  None \<Rightarrow> Inl (ValueError (InvalidInt (strip fs)))
                | Some f \<Rightarrow>
                    (case py_float (strip_chars ''() '' vs) of
                       None \<Rightarrow> Inl (ValueError (InvalidFloat (strip_chars ''() '' vs)))
                     | Some v \<Rightarrow> Inr (Some (f, v))))
           | _ \<Rightarrow> Inl (ValueError TooManyValues))"
  by (simp add: parse_part_def Let_def)

lemma parse_part_malformed:
  "malformed p \<Longrightarrow> \<exists>ve. parse_part p = Inl (ValueError ve)"
  by (auto simp: parse_part_cases malformed_def Let_def split: list.splits option.splits)

lemma parse_part_wellformed:
  "\<not> malformed p \<Longrightarrow> \<exists>r. parse_part p = Inr r"
  by (auto simp: parse_part_cases malformed_def Let_def split: list.splits option.splits)

lemma parse_parts_first_malformed:
  "\<forall>q\<in>set pre. \<not> malformed q \<Longrightarrow> parse_part p = Inl e \<Longrightarrow> parse_parts (pre @ p # post) = Inl e"
proof (induction pre)
  case Nil
  then show ?case by simp
next
  case (Cons q pre)
  then obtain r where "parse_part q = Inr r" using parse_part_wellformed by fastforce
  with Cons show ?case by simp
qed

lemma parse_parts_wellformed:
  "\<forall>q\<in>set ps. \<not> malformed q \<Longrightarrow> \<exists>points. parse_parts ps = Inr points"
proof (induction ps)
  case Nil
  then show ?case by simp
next
  case (Cons q ps)
  then obtain r where "parse_part q = Inr r" using parse_part_wellformed by fastforce
  with Cons show ?case by auto
qed

lemma value_at_no_value_error: "value_at points fr \<noteq> Inl (ValueError ve)"
proof -
  have f: "\<And>x. finite_value x \<noteq> Inl (ValueError ve)"
    subgoal for x by (cases x) auto
    done
  show ?thesis
    using f by (auto simp: value_at_def split: prod.splits option.splits list.splits sum.splits)
qed

lemma values_for_no_value_error: "values_for points frs \<noteq> Inl (ValueError ve)"
  by (induction frs) (auto simp: value_at_no_value_error split: sum.splits)

lemma first_malformed:
  assumes "\<exists>p\<in>set ps. malformed p"
  shows "\<exists>pre p post. ps = pre @ p # post \<and> (\<forall>q\<in>set pre. \<not> malformed q) \<and> malformed p"
  using assms split_list_first_prop [of ps malformed] by blast

text \<open>
  Claim C6, as the code has it. Parsing raises \<^verbatim>\<open>ValueError\<close> exactly when some
  comma-separated part is malformed: it contains a colon and has more than one, or its
  frame is no integer literal, or its value no float literal. The error is that of the
  first such part, it is raised by the parse loop whatever the frame count is, and for a
  frame or a value it quotes the offending literal. A part without a colon is never
  malformed: it is skipped.
\<close>

theorem malformed_token_raises_value_error:
  "((\<exists>p\<in>set (split_on CHR '','' schedule). malformed p)
      \<longleftrightarrow> (\<exists>ve. parse_schedule_string schedule n_frames = Inl (ValueError ve)))
   \<and> (\<forall>pre p post. split_on CHR '','' schedule = pre @ p # post
          \<and> (\<forall>q\<in>set pre. \<not> malformed q) \<and> malformed p
        \<longrightarrow> (\<exists>ve. parse_part p = Inl (ValueError ve)
               \<and> parse_schedule_string schedule n_frames = Inl (ValueError ve)))
   \<and> (\<forall>p fs vs. malformed p \<and> split_on CHR '':'' (strip p) = [fs, vs]
        \<longrightarrow> parse_part p = Inl (ValueError
               (if py_int (strip fs) = None then InvalidInt (strip fs)
                else InvalidFloat (strip_chars ''() '' vs))))
   \<and> (\<forall>p. CHR '':'' \<notin> set (strip p) \<longrightarrow> \<not> malformed p \<and> parse_part p = Inr None)"
proof (intro conjI allI impI)
  show "(\<exists>p\<in>set (split_on CHR '','' schedule). malformed p)
      \<longleftrightarrow> (\<exists>ve. parse_schedule_string schedule n_frames = Inl (ValueError ve))"
  proof
    assume "\<exists>p\<in>set (split_on CHR '','' schedule). malformed p"
    from first_malformed [OF this] obtain pre p post
      where s: "split_on CHR '','' schedule = pre @ p # post"
        and pre: "\<forall>q\<in>set pre. \<not> malformed q" and p: "malformed p" by blast
    from parse_part_malformed [OF p] obtain ve where "parse_part p = Inl (ValueError ve)" ..
    from parse_parts_first_malformed [OF pre this, of post] s
    have "parse_schedule_string schedule n_frames = Inl (ValueError ve)"
      by (simp add: parse_schedule_string_def parse_points_def)
    then show "\<exists>ve. parse_schedule_string schedule n_frames = Inl (ValueError ve)" ..
  next
    assume "\<exists>ve. parse_schedule_string schedule n_frames = Inl (ValueError ve)"
    then obtain ve where e: "parse_schedule_string schedule n_frames = Inl (ValueError ve)" ..
    show "\<exists>p\<in>set (split_on CHR '','' schedule). malformed p"
    proof (rule ccontr)
      assume "\<not> (\<exists>p\<in>set (split_on CHR '','' schedule). malformed p)"
      then have "\<forall>q\<in>set (split_on CHR '','' schedule). \<not> malformed q" by blast
      from parse_parts_wellformed [OF this] obtain points
        where "parse_parts (split_on CHR '','' schedule) = Inr points" ..
      with e show False
        by (simp add: parse_schedule_string_def parse_points_def values_for_no_value_error)
    qed
  qed
next
  fix pre p post
  assume h: "split_on CHR '','' schedule = pre @ p # post
          \<and> (\<forall>q\<in>set pre. \<not> malformed q) \<and> malformed p"
  then obtain ve where ve: "parse_part p = Inl (ValueError ve)"
    using parse_part_malformed by blast
  from h have "\<forall>q\<in>set pre. \<not> malformed q" by blast
  from parse_parts_first_malformed [OF this ve, of post] h
  have "parse_schedule_string schedule n_frames = Inl (ValueError ve)"
    by (simp add: parse_schedule_string_def parse_points_def)
  with ve show "\<exists>ve. parse_part p = Inl (ValueError ve)
               \<and> parse_schedule_string schedule n_frames = Inl (ValueError ve)" by blast
next
  fix p fs vs
  assume "malformed p \<and> split_on CHR '':'' (strip p) = [fs, vs]"
  then show "parse_part p = Inl (ValueError
               (if py_int (strip fs) = None then InvalidInt (strip fs)
                else InvalidFloat (strip_chars ''() '' vs)))"
    by (auto simp: parse_part_cases malformed_def Let_def split: option.splits)
next
  fix p
  assume "CHR '':'' \<notin> set (strip p)"
  then show "\<not> malformed p" by (simp add: malformed_def Let_def)
next
  fix p
  assume "CHR '':'' \<notin> set (strip p)"
  then show "parse_part p = Inr None" by (simp add: parse_part_cases)
qed

theorem malformed_token_raises_value_error_witness:
  "split_on CHR '','' ''0:(1.0),x:(2.0),garbage'' = [''0:(1.0)''] @ ''x:(2.0)'' # [''garbage'']
   \<and> \<not> malformed ''0:(1.0)'' \<and> malformed ''x:(2.0)''
   \<and> parse_schedule_string ''0:(1.0),x:(2.0),garbage'' 0 = Inl (ValueError (InvalidInt ''x''))"
proof -
  have s: "split_on CHR '','' ''0:(1.0),x:(2.0),garbage'' = [''0:(1.0)''] @ ''x:(2.0)'' # [''garbage'']"
    by code_simp
  have w0: "\<not> malformed ''0:(1.0)''"
    by code_simp
  have w: "\<forall>q\<in>set [''0:(1.0)'']. \<not> malformed q"
    using w0 by simp
  have m: "malformed ''x:(2.0)''"
    by code_simp
  have pp: "parse_part ''x:(2.0)'' = Inl (ValueError (InvalidInt ''x''))"
    by code_simp
  note t = malformed_token_raises_value_error [of "''0:(1.0),x:(2.0),garbage''" 0,
      THEN conjunct2, THEN conjunct1, rule_format, of "[''0:(1.0)'']" "''x:(2.0)''" "[''garbage'']"]
  have "\<exists>ve. parse_part ''x:(2.0)'' = Inl (ValueError ve)
     \<and> parse_schedule_string ''0:(1.0),x:(2.0),garbage'' 0 = Inl (ValueError ve)"
    by (rule t) (intro conjI s w m)
  then obtain ve where 1: "parse_part ''x:(2.0)'' = Inl (ValueError ve)"
    and 2: "parse_schedule_string ''0:(1.0),x:(2.0),garbage'' 0 = Inl (ValueError ve)"
    by (elim exE conjE)
  from 1 pp have "ve = InvalidInt ''x''" by (simp only: sum.inject error.inject)
  with 2 have r: "parse_schedule_string ''0:(1.0),x:(2.0),garbage'' 0 = Inl (ValueError (InvalidInt ''x''))"
    by (simp only:)
  show ?thesis by (intro conjI s w0 m r)
qed

text \<open>
  A token that is neither \<^verbatim>\<open>frame:(value)\<close> nor anything with a colon raises nothing:
  the schedule \<^verbatim>\<open>"0:(1.0),garbage"\<close> parses, and its one frame has the value 1.
\<close>

theorem garbage_token_is_skipped:
  "parse_schedule_string ''0:(1.0),garbage'' 1 = Inr [1]"
  by code_simp
section \<open>Properties of frame-rate upsampling\<close>










section \<open>Properties of color coherence\<close>









section \<open>Properties of the per-frame step and of the run\<close>

lemma temporal_blend_trace:
  "set (fst (temporal_blend history output config trace)) \<subseteq> set trace \<union> {TemporalBlend}"
  "set trace \<subseteq> set (fst (temporal_blend history output config trace))"
  by (auto simp: temporal_blend_def)

lemma coherence_and_blend_trace:
  "set trace \<subseteq> set (fst (coherence_and_blend env history output config trace))"
  "set (fst (coherence_and_blend env history output config trace))
     \<subseteq> set trace \<union> {ColorCoherence, TemporalBlend}"
  by (auto simp: coherence_and_blend_def temporal_blend_def split: sum.splits)

lemma synthesize_trace:
  "Synthesis \<in> set (fst (synthesize env history warped_image keyframe config trace))"
  using coherence_and_blend_trace(1)
  by (fastforce simp: synthesize_def split: sum.splits)

lemma synthesize_count:
  "count_list (fst (synthesize env history warped_image keyframe config trace)) Synthesis
     = Suc (count_list trace Synthesis)"
  by (auto simp: synthesize_def coherence_and_blend_def temporal_blend_def split: sum.splits)

text \<open>
  Claim C1. For a cadence \<open>N \<ge> 1\<close> and every frame index, the step calls the synthesis
  oracle if and only if \<open>frame_idx mod N = 0\<close>, and then once; on every other frame it
  returns the warped (and, when enabled and a previous frame exists, flow-aligned) frame,
  and neither color coherence nor temporal blending runs.
\<close>

theorem cadence_gates_synthesis:
  assumes "1 \<le> cfg_diffusion_cadence config"
  shows "(Synthesis \<in> set (fst (generate_frame env history prev_image frame_idx keyframe config))
            \<longleftrightarrow> frame_idx mod cfg_diffusion_cadence config = 0)
    \<and> count_list (fst (generate_frame env history prev_image frame_idx keyframe config)) Synthesis
         = (if frame_idx mod cfg_diffusion_cadence config = 0 then 1 else 0)
    \<and> (frame_idx mod cfg_diffusion_cadence config \<noteq> 0 \<longrightarrow>
          snd (generate_frame env history prev_image frame_idx keyframe config)
            = Inr (warped env history prev_image keyframe config)
          \<and> ColorCoherence \<notin> set (fst (generate_frame env history prev_image frame_idx keyframe config))
          \<and> TemporalBlend \<notin> set (fst (generate_frame env history prev_image frame_idx keyframe config)))"
proof (cases "frame_idx mod cfg_diffusion_cadence config = 0")
  case True
  then show ?thesis
    using assms by (simp add: generate_frame_def Let_def synthesize_trace synthesize_count)
next
  case False
  then show ?thesis
    using assms by (simp add: generate_frame_def Let_def warped_def)
qed

theorem cadence_gates_synthesis_witness:
  "1 \<le> cfg_diffusion_cadence ((default_config 9 []) \<lparr>cfg_diffusion_cadence := 3\<rparr>)
   \<and> Synthesis \<in> set (fst (generate_frame still [] [[0]] 6 (new_keyframe 6 [])
                              ((default_config 9 []) \<lparr>cfg_diffusion_cadence := 3\<rparr>)))
   \<and> Synthesis \<notin> set (fst (generate_frame still [] [[0]] 4 (new_keyframe 4 [])
                              ((default_config 9 []) \<lparr>cfg_diffusion_cadence := 3\<rparr>)))
   \<and> snd (generate_frame still [] [[0]] 4 (new_keyframe 4 [])
             ((default_config 9 []) \<lparr>cfg_diffusion_cadence := 3\<rparr>)) = Inr [[0]]"
proof -
  let ?c = "(default_config 9 []) \<lparr>cfg_diffusion_cadence := 3\<rparr>"
  have c: "1 \<le> cfg_diffusion_cadence ?c" by (simp add: default_config_def)
  have n: "cfg_diffusion_cadence ?c = 3" by (simp add: default_config_def)
  have w: "warped still [] [[0]] (new_keyframe 4 []) ?c = [[0]]"
    by (simp add: warped_def still_def)
  note t6 = cadence_gates_synthesis [OF c, of still "[]" "[[0]]" 6 "new_keyframe 6 []"]
  note t4 = cadence_gates_synthesis [OF c, of still "[]" "[[0]]" 4 "new_keyframe 4 []"]
  from t6 have 1: "Synthesis \<in> set (fst (generate_frame still [] [[0]] 6 (new_keyframe 6 []) ?c))"
    by (simp add: n)
  from t4 have 2: "Synthesis \<notin> set (fst (generate_frame still [] [[0]] 4 (new_keyframe 4 []) ?c))"
    by (simp add: n)
  from t4 have 3: "snd (generate_frame still [] [[0]] 4 (new_keyframe 4 []) ?c) = Inr [[0]]"
    by (simp add: n w)
  show ?thesis by (intro conjI c 1 2 3)
qed

lemma call_progress_calls:
  "st_calls (fst (call_progress (Some cb) idx n st)) = st_calls st @ [(idx, n)]"
  "snd (call_progress (Some cb) idx n st) = cb idx n"
  by (simp_all add: call_progress_def)

lemma resolve_keyframe_calls:
  "st_calls (fst (resolve_keyframe audio i st)) = st_calls st"
  by (simp add: resolve_keyframe_def split: prod.splits)

lemma frame_step_calls:
  "st_calls (fst (frame_step env config audio (Some cb) init_image i st))
     = st_calls st @ [(int i, total_frames config)]"
proof -
  obtain st1 e1 where c: "call_progress (Some cb) (int i) (total_frames config) st = (st1, e1)"
    by (cases "call_progress (Some cb) (int i) (total_frames config) st")
  have c1: "st_calls st1 = st_calls st @ [(int i, total_frames config)]"
    using call_progress_calls(1) [of cb "int i" "total_frames config" st] c by simp
  obtain st2 kf e2 where r: "resolve_keyframe audio i st1 = (st2, kf, e2)"
    by (cases "resolve_keyframe audio i st1")
  have c2: "st_calls st2 = st_calls st1"
    using resolve_keyframe_calls [of audio i st1] r by simp
  show ?thesis
    using c c1 r c2
    by (auto simp: frame_step_def split: option.splits sum.splits)
qed

lemma frame_step_callback_raises:
  "cb (int i) (total_frames config) = Some e \<Longrightarrow>
     snd (frame_step env config audio (Some cb) init_image i st) = Some e"
  by (simp add: frame_step_def call_progress_def)

lemma frame_loop_calls:
  "\<exists>m\<le>length js.
      st_calls (fst (frame_loop env config audio (Some cb) init_image js st))
        = st_calls st @ map (\<lambda>i. (int i, total_frames config)) (take m js)
      \<and> (snd (frame_loop env config audio (Some cb) init_image js st) = None \<longrightarrow> m = length js)"
proof (induction js arbitrary: st)
  case Nil
  then show ?case by simp
next
  case (Cons i js)
  let ?f = "\<lambda>i. (int i, total_frames config)"
  obtain st' r where s: "frame_step env config audio (Some cb) init_image i st = (st', r)"
    by (cases "frame_step env config audio (Some cb) init_image i st")
  have "st_calls (fst (frame_step env config audio (Some cb) init_image i st))
          = st_calls st @ [?f i]"
    by (rule frame_step_calls)
  then have c: "st_calls st' = st_calls st @ [?f i]"
    by (simp only: s fst_conv)
  show ?case
  proof (cases r)
    case (Some e)
    have l: "frame_loop env config audio (Some cb) init_image (i # js) st = (st', Some e)"
      using s Some by simp
    have 1: "(1::nat) \<le> length (i # js)" by simp
    have 2: "st_calls (fst (frame_loop env config audio (Some cb) init_image (i # js) st))
              = st_calls st @ map ?f (take 1 (i # js))"
      by (simp only: l fst_conv c) simp
    have 3: "snd (frame_loop env config audio (Some cb) init_image (i # js) st) = None
              \<longrightarrow> 1 = length (i # js)"
      by (simp only: l snd_conv) simp
    from 1 2 3 show ?thesis by (intro exI [of _ 1] conjI)
  next
    case None
    have l: "frame_loop env config audio (Some cb) init_image (i # js) st
           = frame_loop env config audio (Some cb) init_image js st'"
      using s None by simp
    from Cons.IH [of st'] obtain m where m: "m \<le> length js"
      and mc: "st_calls (fst (frame_loop env config audio (Some cb) init_image js st'))
        = st_calls st' @ map ?f (take m js)"
      and mn: "snd (frame_loop env config audio (Some cb) init_image js st') = None \<longrightarrow> m = length js"
      by (elim exE conjE)
    have 1: "Suc m \<le> length (i # js)" using m by simp
    have "st_calls st' @ map ?f (take m js) = st_calls st @ map ?f (take (Suc m) (i # js))"
      by (simp only: c) simp
    then have 2: "st_calls (fst (frame_loop env config audio (Some cb) init_image (i # js) st))
              = st_calls st @ map ?f (take (Suc m) (i # js))"
      by (simp only: l mc)
    have 3: "snd (frame_loop env config audio (Some cb) init_image (i # js) st) = None
              \<longrightarrow> Suc m = length (i # js)"
      using mn by (simp only: l) simp
    from 1 2 3 show ?thesis by (intro exI [of _ "Suc m"] conjI)
  qed
qed

lemma frame_loop_callback_raises:
  "\<exists>i\<in>set js. cb (int i) (total_frames config) \<noteq> None \<Longrightarrow>
     snd (frame_loop env config audio (Some cb) init_image js st) \<noteq> None"
proof (induction js arbitrary: st)
  case Nil
  then show ?case by simp
next
  case (Cons i js)
  obtain st' r where s: "frame_step env config audio (Some cb) init_image i st = (st', r)"
    by (cases "frame_step env config audio (Some cb) init_image i st")
  show ?case
  proof (cases r)
    case (Some e)
    then show ?thesis using s by simp
  next
    case None
    have "cb (int i) (total_frames config) = None"
    proof (rule ccontr)
      assume "cb (int i) (total_frames config) \<noteq> None"
      then obtain e where "cb (int i) (total_frames config) = Some e" by auto
      from frame_step_callback_raises [of cb i config e env audio init_image st] this s None
      show False by simp
    qed
    with Cons.prems have "\<exists>i\<in>set js. cb (int i) (total_frames config) \<noteq> None" by auto
    from Cons.IH [OF this, of st'] show ?thesis using s None by simp
  qed
qed

lemma run_frames_cases:
  "(\<exists>e. run_frames env init_image config audio_data pc = (initial_state config, Some e))
   \<or> (\<exists>audio. run_frames env init_image config audio_data pc
          = frame_loop env config audio pc init_image [0..<nat (total_frames config)]
              (initial_state config))"
proof (cases "load_pipeline env")
  case (Some e)
  then show ?thesis by (simp add: run_frames_def)
next
  case None
  show ?thesis
  proof (cases "if audio_data \<noteq> [] then parse_audio_data audio_data (total_frames config)
                 else Inr []")
    case (Inl e)
    then show ?thesis using None by (simp add: run_frames_def)
  next
    case (Inr audio)
    then have "run_frames env init_image config audio_data pc
          = frame_loop env config audio pc init_image [0..<nat (total_frames config)]
              (initial_state config)"
      using None by (simp add: run_frames_def)
    then show ?thesis by blast
  qed
qed

lemma generate_animation_error:
  "snd (run_frames env init_image config audio_data pc) = Some e \<Longrightarrow>
     generate_animation env init_image config audio_data pc = Inl e"
  by (cases "run_frames env init_image config audio_data pc")
     (simp add: generate_animation_def)

lemma run_frames_calls:
  "\<exists>m\<le>nat (total_frames config).
       st_calls (fst (run_frames env init_image config audio_data (Some cb)))
         = map (\<lambda>i. (int i, total_frames config)) [0..<m]
       \<and> (snd (run_frames env init_image config audio_data (Some cb)) = None
            \<longrightarrow> m = nat (total_frames config))"
proof -
  let ?n = "nat (total_frames config)"
  let ?f = "\<lambda>i. (int i, total_frames config)"
  let ?run = "run_frames env init_image config audio_data (Some cb)"
  from run_frames_cases [of env init_image config audio_data "Some cb"]
  show ?thesis
  proof (elim disjE exE)
    fix audio
    assume r: "?run = frame_loop env config audio (Some cb) init_image [0..<?n]
                                  (initial_state config)"
    let ?loop = "frame_loop env config audio (Some cb) init_image [0..<?n] (initial_state config)"
    from frame_loop_calls [of "[0..<?n]" env config audio cb init_image "initial_state config"]
    obtain m where m: "m \<le> length [0..<?n]"
      and c: "st_calls (fst ?loop) = st_calls (initial_state config) @ map ?f (take m [0..<?n])"
      and d: "snd ?loop = None \<longrightarrow> m = length [0..<?n]"
      by (elim exE conjE)
    have m': "m \<le> ?n" using m by simp
    have e: "st_calls (initial_state config) = []" by (simp add: initial_state_def)
    have t: "take m [0..<?n] = [0..<m]" using m' by (simp add: take_upt)
    have c': "st_calls (fst ?run) = map ?f [0..<m]"
      using c by (simp only: r e t append_Nil)
    have l: "length [0..<?n] = ?n" by simp
    have d': "snd ?run = None \<longrightarrow> m = ?n"
      using d by (simp only: r l)
    from m' c' d' show ?thesis by (intro exI [of _ m] conjI)
  next
    fix e'
    assume r: "?run = (initial_state config, Some e')"
    have 1: "(0::nat) \<le> ?n" by simp
    have 2: "st_calls (fst ?run) = map ?f [0..<0]"
      by (simp only: r fst_conv) (simp add: initial_state_def)
    have 3: "snd ?run = None \<longrightarrow> 0 = ?n"
      by (simp only: r snd_conv) simp
    from 1 2 3 show ?thesis by (intro exI [of _ 0] conjI)
  qed
qed

lemma raising_callback_aborts:
  assumes "\<exists>i<nat (total_frames config). cb (int i) (total_frames config) \<noteq> None"
  shows "\<exists>e. generate_animation env init_image config audio_data (Some cb) = Inl e"
proof -
  from assms
  have ex: "\<exists>i\<in>set [0..<nat (total_frames config)]. cb (int i) (total_frames config) \<noteq> None"
    by auto
  let ?run = "run_frames env init_image config audio_data (Some cb)"
  from run_frames_cases [of env init_image config audio_data "Some cb"]
  have "snd ?run \<noteq> None"
  proof (elim disjE exE)
    fix audio
    assume r: "?run = frame_loop env config audio (Some cb) init_image
                        [0..<nat (total_frames config)] (initial_state config)"
    note raises = frame_loop_callback_raises [where js = "[0..<nat (total_frames config)]"
        and cb = cb and config = config and env = env and audio = audio
        and init_image = init_image and st = "initial_state config"]
    have "snd (frame_loop env config audio (Some cb) init_image
                 [0..<nat (total_frames config)] (initial_state config)) \<noteq> None"
      by (rule raises) (rule ex)
    then show ?thesis unfolding r .
  next
    fix e'
    assume r: "?run = (initial_state config, Some e')"
    show ?thesis by (simp only: r snd_conv) simp
  qed
  then obtain e' where "snd ?run = Some e'" by auto
  from generate_animation_error [OF this] show ?thesis ..
qed

lemma callback_raising_at_first_frame:
  assumes "0 < total_frames config" and "load_pipeline env = None" and "audio_data = []"
    and "cb 0 (total_frames config) = Some e"
  shows "generate_animation env init_image config audio_data (Some cb) = Inl e"
proof -
  from assms(1) obtain rest where u: "[0..<nat (total_frames config)] = 0 # rest"
    by (cases "nat (total_frames config)") (simp_all add: upt_rec)
  have "cb (int 0) (total_frames config) = Some e" using assms(4) by simp
  from frame_step_callback_raises [of cb 0 config e env "[]" init_image "initial_state config", OF this]
  have s: "snd (frame_step env config [] (Some cb) init_image 0 (initial_state config)) = Some e" .
  obtain st' where f: "frame_step env config [] (Some cb) init_image 0 (initial_state config) = (st', Some e)"
    using s by (cases "frame_step env config [] (Some cb) init_image 0 (initial_state config)") simp
  have "frame_loop env config [] (Some cb) init_image (0 # rest) (initial_state config) = (st', Some e)"
    by (simp add: f)
  then have "run_frames env init_image config audio_data (Some cb) = (st', Some e)"
    using assms(2,3) by (simp add: run_frames_def u del: frame_loop.simps)
  then have "snd (run_frames env init_image config audio_data (Some cb)) = Some e" by simp
  from generate_animation_error [OF this] show ?thesis .
qed

text \<open>
  Claim C9, as the code has it. With a progress callback, the calls made during a run are
  \<open>(0, total_frames), (1, total_frames), ...\<close> in order, one at the start of each frame
  reached; a run that completes has made exactly \<open>total_frames\<close> of them. A callback that
  raises on some frame is not ignored: \<^verbatim>\<open>generate_animation\<close> ends by an exception, and
  when the callback raises on frame 0 of a run that got that far, by that very exception.
\<close>

theorem callback_called_in_order_and_its_failure_aborts:
  "(\<exists>m\<le>nat (total_frames config).
       st_calls (fst (run_frames env init_image config audio_data (Some cb)))
         = map (\<lambda>i. (int i, total_frames config)) [0..<m]
       \<and> (snd (run_frames env init_image config audio_data (Some cb)) = None
            \<longrightarrow> m = nat (total_frames config)))
   \<and> ((\<exists>i<nat (total_frames config). cb (int i) (total_frames config) \<noteq> None)
        \<longrightarrow> (\<exists>e. generate_animation env init_image config audio_data (Some cb) = Inl e))
   \<and> (0 < total_frames config \<and> load_pipeline env = None \<and> audio_data = []
        \<and> cb 0 (total_frames config) = Some e
        \<longrightarrow> generate_animation env init_image config audio_data (Some cb) = Inl e)"
proof (intro conjI impI)
  show "\<exists>m\<le>nat (total_frames config).
       st_calls (fst (run_frames env init_image config audio_data (Some cb)))
         = map (\<lambda>i. (int i, total_frames config)) [0..<m]
       \<and> (snd (run_frames env init_image config audio_data (Some cb)) = None
            \<longrightarrow> m = nat (total_frames config))"
    by (rule run_frames_calls)
next
  assume "\<exists>i<nat (total_frames config). cb (int i) (total_frames config) \<noteq> None"
  then show "\<exists>e. generate_animation env init_image config audio_data (Some cb) = Inl e"
    by (rule raising_callback_aborts)
next
  assume a: "0 < total_frames config \<and> load_pipeline env = None \<and> audio_data = []
        \<and> cb 0 (total_frames config) = Some e"
  show "generate_animation env init_image config audio_data (Some cb) = Inl e"
    by (rule callback_raising_at_first_frame) (use a in simp_all)
qed

theorem callback_called_in_order_and_its_failure_aborts_witness:
  "0 < total_frames (default_config 2 []) \<and> load_pipeline still = None
   \<and> generate_animation still [[0]] (default_config 2 []) []
        (Some (\<lambda>i n. if i = 0 then Some (External ''progress failed'') else None))
        = Inl (External ''progress failed'')"
proof -
  let ?cb = "(\<lambda>i n. if i = 0 then Some (External ''progress failed'') else None) :: callback"
  have 1: "0 < total_frames (default_config 2 [])" by (simp add: default_config_def)
  have 2: "load_pipeline still = None" by (simp add: still_def)
  have 3: "?cb 0 (total_frames (default_config 2 [])) = Some (External ''progress failed'')"
    by simp
  have e: "([] :: (string \<times> real list) list) = []" by simp
  note t = callback_called_in_order_and_its_failure_aborts
    [where config = "default_config 2 []" and env = still and audio_data = "[]" and cb = ?cb
       and e = "External ''progress failed''" and init_image = "[[0]]",
     THEN conjunct2, THEN conjunct2, rule_format]
  have "generate_animation still [[0]] (default_config 2 []) [] (Some ?cb)
          = Inl (External ''progress failed'')"
    by (rule t) (intro conjI 1 2 e 3)
  with 1 2 show ?thesis by (intro conjI)
qed

lemma upt_2: "[0..<2] = [0, Suc 0]"
  by (simp add: numeral_2_eq_2)

text \<open>
  A progress callback that raises is not ignored: with a callback that raises on every
  call, the run of two frames ends by that exception and returns no frames.
\<close>

theorem raising_callback_ends_the_run: "generate_animation still [[0]] (default_config 2 []) []
     (Some (\<lambda>i n. Some (External ''callback failed''))) = Inl (External ''callback failed'')"
  by (simp add: generate_animation_def run_frames_def still_def default_config_def
      initial_state_def frame_step_def call_progress_def upt_2)

lemma single_keyframe_ref:
  "frame kf \<le> idx \<Longrightarrow> get_keyframe_ref idx [kf] = Config 0"
  by (simp add: get_keyframe_ref_def sorted_keyframes_def)

text \<open>
  Claim C4. The keyframes of the configuration are changed by the run. With one keyframe
  at frame 0 (zoom 1), two frames and a \<^verbatim>\<open>bass\<close> feature of 1 on both, the keyframe
  resolved for either frame is the object of the configuration itself, and the modulation
  multiplies its zoom in place: after the run the keyframe of the configuration has zoom
  1.44, the factor 1.2 applied twice.
\<close>

theorem audio_modulation_compounds_in_config_keyframe:
  "snd (run_frames still [[0]] ((default_config 2 [new_keyframe 0 ''p''])
          \<lparr>cfg_color_coherence := ''None'', temporal_strength := 0\<rparr>)
          [(''bass'', [1, 1])] None) = None
   \<and> map zoom (st_keyframes (fst (run_frames still [[0]]
          ((default_config 2 [new_keyframe 0 ''p''])
             \<lparr>cfg_color_coherence := ''None'', temporal_strength := 0\<rparr>)
          [(''bass'', [1, 1])] None))) = [144 / 100]
   \<and> zoom (new_keyframe 0 ''p'') = 1"
  by (simp add: run_frames_def still_def default_config_def
      initial_state_def frame_step_def call_progress_def upt_2 linspace_def interp_at_def
      resolve_keyframe_def single_keyframe_ref new_keyframe_def apply_audio_reactivity_def
      feature_def modulate_zoom_def modulate_angle_def modulate_strength_def
      previous_image_def generate_frame_def synthesize_def coherence_and_blend_def
      temporal_blend_def push_history_def pipeline_arguments_def)


end
